theory Spec2Isabelle
  imports Main "HOL-Library.Word" "HOL-Library.Sublist"
begin

section \<open>The OBS API addon (\<^verbatim>\<open>src/obsapi.cc\<close>)\<close>

text \<open>
  The addon exports seven commands to a JavaScript host. Six of them are embedded here
  (\<^verbatim>\<open>initialize\<close>, which starts the engine and loads its modules, is not the subject of
  any statement below). Each command is a function on an explicit process state: the flag
  and tables of the native engine, and a log of the effects performed (native calls, the
  queuing of a worker, the settling of a promise). A \<^verbatim>\<open>std::string\<close> is a list of
  bytes, a C pointer to an engine object is a \<open>nat option\<close> (\<open>None\<close> is
  \<^verbatim>\<open>nullptr\<close>), \<^verbatim>\<open>size_t\<close> is a 64-bit word and \<^verbatim>\<open>uint32_t\<close> a 32-bit
  word.
\<close>

subsection \<open>Strings: \<^verbatim>\<open>find\<close>, \<^verbatim>\<open>substr\<close>, \<^verbatim>\<open>erase\<close>, \<^verbatim>\<open>atoi\<close>, \<^verbatim>\<open>to_string\<close>\<close>

type_synonym size_t = "64 word"
type_synonym uint32_t = "32 word"

text \<open>\<^verbatim>\<open>s.find(c)\<close>: the index of the first occurrence of the byte, \<open>None\<close> for
  \<^verbatim>\<open>std::string::npos\<close>.\<close>

fun find_char :: "string \<Rightarrow> char \<Rightarrow> nat option" where
  "find_char [] c = None"
| "find_char (d # ds) c =
     (if d = c then Some 0
      else case find_char ds c of None \<Rightarrow> None | Some i \<Rightarrow> Some (Suc i))"

text \<open>\<^verbatim>\<open>s.find(pat)\<close> for a string pattern: the least index at which \<open>pat\<close> starts.\<close>

fun find_str :: "string \<Rightarrow> string \<Rightarrow> nat option" where
  "find_str [] pat = (if pat = [] then Some 0 else None)"
| "find_str (d # ds) pat =
     (if prefix pat (d # ds) then Some 0
      else case find_str ds pat of None \<Rightarrow> None | Some i \<Rightarrow> Some (Suc i))"

text \<open>\<^verbatim>\<open>s.substr(0, n)\<close> and \<^verbatim>\<open>s.erase(0, n)\<close>; both clamp \<open>n\<close> to the length.\<close>

definition substr0 :: "string \<Rightarrow> nat \<Rightarrow> string" where
  "substr0 s n = take n s"

definition erase0 :: "string \<Rightarrow> nat \<Rightarrow> string" where
  "erase0 s n = drop n s"

text \<open>\<^verbatim>\<open>s.c_str()\<close> as a C function reads it: the bytes before the first NUL.\<close>

definition c_str :: "string \<Rightarrow> string" where
  "c_str s = takeWhile (\<lambda>c. c \<noteq> CHR 0x00) s"

definition isspace :: "char \<Rightarrow> bool" where
  "isspace c = (c = CHR '' '' \<or> c = CHR 0x09 \<or> c = CHR 0x0A \<or> c = CHR 0x0B
                \<or> c = CHR 0x0C \<or> c = CHR 0x0D)"

definition isdigit :: "char \<Rightarrow> bool" where
  "isdigit c = (of_char CHR ''0'' \<le> (of_char c :: nat) \<and> (of_char c :: nat) \<le> of_char CHR ''9'')"

definition digit_value :: "char \<Rightarrow> nat" where
  "digit_value c = (of_char c :: nat) - of_char CHR ''0''"

text \<open>The value of the leading run of decimal digits, most significant first.\<close>

fun digits_acc :: "nat \<Rightarrow> string \<Rightarrow> nat" where
  "digits_acc acc [] = acc"
| "digits_acc acc (c # cs) =
     (if isdigit c then digits_acc (10 * acc + digit_value c) cs else acc)"

text \<open>
  \<^verbatim>\<open>atoi\<close>: skip white space, read one optional sign, then the leading digits; 0 when
  there are none. The result is the mathematical integer. C leaves \<^verbatim>\<open>atoi\<close> undefined
  when that integer does not fit an \<^verbatim>\<open>int\<close>, so statements about parsed values carry
  the bound \<open>< 2 ^ 31\<close>.
\<close>

definition atoi :: "string \<Rightarrow> int" where
  "atoi s =
     (case dropWhile isspace s of
        [] \<Rightarrow> 0
      | c # cs \<Rightarrow>
          if c = CHR ''-'' then - int (digits_acc 0 cs)
          else if c = CHR ''+'' then int (digits_acc 0 cs)
          else int (digits_acc 0 (c # cs)))"

text \<open>\<^verbatim>\<open>std::to_string\<close> of an unsigned value: decimal, no leading zero.\<close>

definition digit_char :: "nat \<Rightarrow> char" where
  "digit_char d = char_of (of_char CHR ''0'' + d)"

fun to_string :: "nat \<Rightarrow> string" where
  "to_string n =
     (if n < 10 then [digit_char n] else to_string (n div 10) @ [digit_char (n mod 10)])"

declare to_string.simps [simp del]

subsection \<open>Values of the host language\<close>

datatype js_error = TypeError string

text \<open>A promise is recorded by the way it settles.\<close>

datatype promise = Resolved string | Rejected js_error

datatype js_value =
    JSUndefined
  | JSNull
  | JSBoolean bool
  | JSNumber int
  | JSString string
  | JSPromise promise

text \<open>How a call of an exported function ends for the host: a pending JavaScript
  exception, or an ordinary return value.\<close>

datatype completion = Throw js_error | Return js_value

fun IsString :: "js_value \<Rightarrow> bool" where
  "IsString (JSString s) = True"
| "IsString v = False"

text \<open>\<^verbatim>\<open>info[0].As<Napi::String>()\<close>, only reached after \<open>IsString\<close> has held.\<close>

fun As_String :: "js_value \<Rightarrow> string" where
  "As_String (JSString s) = s"
| "As_String v = []"

subsection \<open>Constants and configuration values\<close>

text \<open>The members of the engine's enumerations; the addon names \<open>VIDEO_FORMAT_I420\<close>,
  \<open>SPEAKERS_MONO\<close> and \<open>SPEAKERS_STEREO\<close> only.\<close>

datatype video_format =
    VIDEO_FORMAT_NONE | VIDEO_FORMAT_I420 | VIDEO_FORMAT_NV12 | VIDEO_FORMAT_YVYU
  | VIDEO_FORMAT_YUY2 | VIDEO_FORMAT_UYVY | VIDEO_FORMAT_RGBA | VIDEO_FORMAT_BGRA
  | VIDEO_FORMAT_BGRX | VIDEO_FORMAT_Y800 | VIDEO_FORMAT_I444

datatype speaker_layout =
    SPEAKERS_UNKNOWN | SPEAKERS_MONO | SPEAKERS_STEREO | SPEAKERS_2POINT1
  | SPEAKERS_4POINT0 | SPEAKERS_4POINT1 | SPEAKERS_5POINT1 | SPEAKERS_7POINT1

definition DEFAULT_VIDEO_ADAPTER :: size_t where "DEFAULT_VIDEO_ADAPTER = 0"
definition DEFAULT_MODULE :: string where "DEFAULT_MODULE = ''libobs-opengl''"
definition DEFAULT_VIDEO_FORMAT :: video_format where "DEFAULT_VIDEO_FORMAT = VIDEO_FORMAT_I420"
definition DEFAULT_VIDEO_FPS_NUM :: size_t where "DEFAULT_VIDEO_FPS_NUM = 30000"
definition DEFAULT_VIDEO_FPS_DEN :: size_t where "DEFAULT_VIDEO_FPS_DEN = 1000"
definition DEFAULT_VIDEO_WIDTH :: size_t where "DEFAULT_VIDEO_WIDTH = 640"
definition DEFAULT_VIDEO_HEIGHT :: size_t where "DEFAULT_VIDEO_HEIGHT = 360"
definition DEFAULT_AUDIO_SAMPLES :: size_t where "DEFAULT_AUDIO_SAMPLES = 44100"
definition DEFAULT_AUDIO_CHANNELS :: speaker_layout where "DEFAULT_AUDIO_CHANNELS = SPEAKERS_STEREO"
definition NOT_INITIALIZED_STRING :: string where
  "NOT_INITIALIZED_STRING = ''Error: OBS API not initialized!''"

text \<open>The members of \<^verbatim>\<open>struct obs_video_info\<close> that \<open>create_ovi\<close> assigns. The numeric
  members are \<^verbatim>\<open>uint32_t\<close>; the \<^verbatim>\<open>size_t\<close> arguments are narrowed on assignment.\<close>

record obs_video_info =
  adapter :: uint32_t
  graphics_module :: string
  output_format :: video_format
  fps_num :: uint32_t
  fps_den :: uint32_t
  base_width :: uint32_t
  base_height :: uint32_t
  output_width :: uint32_t
  output_height :: uint32_t

record obs_audio_info =
  samples_per_sec :: uint32_t
  speakers :: speaker_layout

text \<open>\<open>create_ovi\<close> with all nine arguments; a call site that leaves trailing arguments
  out passes their defaults.\<close>

definition create_ovi ::
  "size_t \<Rightarrow> string \<Rightarrow> video_format \<Rightarrow> size_t \<Rightarrow> size_t \<Rightarrow> size_t \<Rightarrow> size_t \<Rightarrow> size_t \<Rightarrow> size_t
     \<Rightarrow> obs_video_info" where
  "create_ovi adapter_arg graphics_module_arg output_format_arg fps_num_arg fps_den_arg
     base_width_arg base_height_arg output_width_arg output_height_arg =
     \<lparr> adapter = ucast adapter_arg,
       graphics_module = graphics_module_arg,
       output_format = output_format_arg,
       fps_num = ucast fps_num_arg,
       fps_den = ucast fps_den_arg,
       base_width = ucast base_width_arg,
       base_height = ucast base_height_arg,
       output_width = ucast output_width_arg,
       output_height = ucast output_height_arg \<rparr>"

definition create_oai :: "size_t \<Rightarrow> speaker_layout \<Rightarrow> obs_audio_info" where
  "create_oai samples_per_sec_arg speakers_arg =
     \<lparr> samples_per_sec = ucast samples_per_sec_arg, speakers = speakers_arg \<rparr>"

subsection \<open>The native engine\<close>

type_synonym handle = "nat option"

text \<open>The effects a command performs, in the order it performs them. A creation call is
  logged with the handle it returned. Pure reads of the engine (\<^verbatim>\<open>obs_initialized\<close>,
  the enumerations) are not effects.\<close>

datatype effect =
    Obs_shutdown
  | Obs_reset_video obs_video_info
  | Obs_reset_audio obs_audio_info
  | Obs_video_encoder_create string string handle
  | Obs_audio_encoder_create string string nat handle
  | Obs_encoder_set_video handle
  | Obs_encoder_set_audio handle
  | Obs_output_set_video_encoder handle handle
  | Obs_output_set_audio_encoder handle handle nat
  | Obs_output_set_service handle handle
  | Obs_output_start handle
  | Obs_output_stop handle
  | Obs_output_release handle
  | Obs_encoder_release handle
  | Obs_service_release handle
  | Worker_queue
  | Promise_resolve string
  | Promise_reject js_error

text \<open>
  Modelled from the spec: the native engine is an external library, invoked through its
  handle-based interface, and none of its code is part of the addon. The state below is what
  the addon can observe of it: whether it is initialized, whether an output is active (the
  source notes that video and audio cannot be reset then), the configuration in force, the
  names the two enumerations visit, the encoder identifiers whose creation fails, and the
  handles that have been created and not yet released.
\<close>

record obs_core =
  initialized :: bool
  output_active :: bool
  video :: "obs_video_info option"
  audio :: "obs_audio_info option"
  encoder_names :: "string list"
  output_names :: "string list"
  unavailable :: "string list"
  live :: "nat list"
  next_handle :: nat
  effects :: "effect list"

definition log_effect :: "effect \<Rightarrow> obs_core \<Rightarrow> obs_core" where
  "log_effect e eng = eng\<lparr>effects := effects eng @ [e]\<rparr>"

definition obs_initialized :: "obs_core \<Rightarrow> bool" where
  "obs_initialized eng = initialized eng"

definition obs_shutdown :: "obs_core \<Rightarrow> obs_core" where
  "obs_shutdown eng =
     log_effect Obs_shutdown
       (eng\<lparr>initialized := False, output_active := False, video := None, audio := None,
             live := []\<rparr>)"

definition obs_reset_video :: "obs_video_info \<Rightarrow> obs_core \<Rightarrow> obs_core" where
  "obs_reset_video ovi eng =
     log_effect (Obs_reset_video ovi)
       (if output_active eng then eng else eng\<lparr>video := Some ovi\<rparr>)"

definition obs_reset_audio :: "obs_audio_info \<Rightarrow> obs_core \<Rightarrow> obs_core" where
  "obs_reset_audio oai eng =
     log_effect (Obs_reset_audio oai)
       (if output_active eng then eng else eng\<lparr>audio := Some oai\<rparr>)"

text \<open>Creation returns a fresh handle, or \<^verbatim>\<open>NULL\<close> when the engine cannot create an
  object of that identifier.\<close>

definition new_handle :: "string \<Rightarrow> obs_core \<Rightarrow> handle \<times> obs_core" where
  "new_handle ident eng =
     (if ident \<in> set (unavailable eng) then (None, eng)
      else (Some (next_handle eng),
            eng\<lparr>live := next_handle eng # live eng, next_handle := Suc (next_handle eng)\<rparr>))"

definition obs_video_encoder_create :: "string \<Rightarrow> string \<Rightarrow> obs_core \<Rightarrow> handle \<times> obs_core" where
  "obs_video_encoder_create ident name eng =
     (let (h, eng') = new_handle ident eng
      in (h, log_effect (Obs_video_encoder_create ident name h) eng'))"

definition obs_audio_encoder_create ::
  "string \<Rightarrow> string \<Rightarrow> nat \<Rightarrow> obs_core \<Rightarrow> handle \<times> obs_core" where
  "obs_audio_encoder_create ident name mixer_idx eng =
     (let (h, eng') = new_handle ident eng
      in (h, log_effect (Obs_audio_encoder_create ident name mixer_idx h) eng'))"

text \<open>Releasing a handle takes it out of the live ones; every native call is a no-op on
  \<^verbatim>\<open>NULL\<close>.\<close>

definition release_handle :: "handle \<Rightarrow> obs_core \<Rightarrow> obs_core" where
  "release_handle h eng =
     (case h of None \<Rightarrow> eng | Some p \<Rightarrow> eng\<lparr>live := remove1 p (live eng)\<rparr>)"

definition obs_encoder_set_video :: "handle \<Rightarrow> obs_core \<Rightarrow> obs_core" where
  "obs_encoder_set_video encoder eng = log_effect (Obs_encoder_set_video encoder) eng"

definition obs_encoder_set_audio :: "handle \<Rightarrow> obs_core \<Rightarrow> obs_core" where
  "obs_encoder_set_audio encoder eng = log_effect (Obs_encoder_set_audio encoder) eng"

definition obs_output_set_video_encoder :: "handle \<Rightarrow> handle \<Rightarrow> obs_core \<Rightarrow> obs_core" where
  "obs_output_set_video_encoder out encoder eng =
     log_effect (Obs_output_set_video_encoder out encoder) eng"

definition obs_output_set_audio_encoder :: "handle \<Rightarrow> handle \<Rightarrow> nat \<Rightarrow> obs_core \<Rightarrow> obs_core" where
  "obs_output_set_audio_encoder out encoder idx eng =
     log_effect (Obs_output_set_audio_encoder out encoder idx) eng"

definition obs_output_set_service :: "handle \<Rightarrow> handle \<Rightarrow> obs_core \<Rightarrow> obs_core" where
  "obs_output_set_service out service eng = log_effect (Obs_output_set_service out service) eng"

definition obs_output_start :: "handle \<Rightarrow> obs_core \<Rightarrow> obs_core" where
  "obs_output_start out eng =
     log_effect (Obs_output_start out)
       (case out of None \<Rightarrow> eng | Some p \<Rightarrow> eng\<lparr>output_active := True\<rparr>)"

definition obs_output_stop :: "handle \<Rightarrow> obs_core \<Rightarrow> obs_core" where
  "obs_output_stop out eng =
     log_effect (Obs_output_stop out)
       (case out of None \<Rightarrow> eng | Some p \<Rightarrow> eng\<lparr>output_active := False\<rparr>)"

definition obs_output_release :: "handle \<Rightarrow> obs_core \<Rightarrow> obs_core" where
  "obs_output_release out eng = log_effect (Obs_output_release out) (release_handle out eng)"

definition obs_encoder_release :: "handle \<Rightarrow> obs_core \<Rightarrow> obs_core" where
  "obs_encoder_release encoder eng =
     log_effect (Obs_encoder_release encoder) (release_handle encoder eng)"

definition obs_service_release :: "handle \<Rightarrow> obs_core \<Rightarrow> obs_core" where
  "obs_service_release service eng =
     log_effect (Obs_service_release service) (release_handle service eng)"

text \<open>\<^verbatim>\<open>obs_enum_encoders\<close> and \<^verbatim>\<open>obs_enum_outputs\<close>: the callback is called with the
  caller's parameter and each object in turn, until it returns \<^verbatim>\<open>false\<close>. An object is
  given by the name its \<^verbatim>\<open>get_name\<close> function returns, and the parameter, a pointer to
  a string, by the string it points to.\<close>

fun obs_enum ::
  "(string option \<Rightarrow> string option \<Rightarrow> bool \<times> string option) \<Rightarrow> string list \<Rightarrow> string option
     \<Rightarrow> string option" where
  "obs_enum cb [] param = param"
| "obs_enum cb (e # es) param =
     (let (continue, param') = cb param (Some e)
      in if continue then obs_enum cb es param' else param')"

definition obs_enum_encoders ::
  "(string option \<Rightarrow> string option \<Rightarrow> bool \<times> string option) \<Rightarrow> string option \<Rightarrow> obs_core
     \<Rightarrow> string option" where
  "obs_enum_encoders cb param eng = obs_enum cb (encoder_names eng) param"

definition obs_enum_outputs ::
  "(string option \<Rightarrow> string option \<Rightarrow> bool \<times> string option) \<Rightarrow> string option \<Rightarrow> obs_core
     \<Rightarrow> string option" where
  "obs_enum_outputs cb param eng = obs_enum cb (output_names eng) param"

subsection \<open>The two queries and \<open>shutdown\<close>\<close>

text \<open>The callbacks get the address of the caller's local string, which is never null;
  the result of a query is that string after the enumeration.\<close>

definition enumCodecs :: "string option \<Rightarrow> string option \<Rightarrow> bool \<times> string option" where
  "enumCodecs c encoder =
     (case (c, encoder) of
        (Some codecs, Some name) \<Rightarrow> (True, Some (codecs @ name))
      | _ \<Rightarrow> (False, c))"

definition obsGetCodecs :: "js_value list \<Rightarrow> obs_core \<Rightarrow> completion \<times> obs_core" where
  "obsGetCodecs info eng =
     (if obs_initialized eng then
        (case obs_enum_encoders enumCodecs (Some []) eng of
           Some codecs \<Rightarrow> (Return (JSString codecs), eng)
         | None \<Rightarrow> (Return (JSString []), eng))
      else (Return (JSString NOT_INITIALIZED_STRING), eng))"

definition enumOutputs :: "string option \<Rightarrow> string option \<Rightarrow> bool \<times> string option" where
  "enumOutputs c encoder =
     (case (c, encoder) of
        (Some codecs, Some name) \<Rightarrow> (True, Some (codecs @ name))
      | _ \<Rightarrow> (False, c))"

definition obsGetOutputs :: "js_value list \<Rightarrow> obs_core \<Rightarrow> completion \<times> obs_core" where
  "obsGetOutputs info eng =
     (if obs_initialized eng then
        (case obs_enum_outputs enumOutputs (Some []) eng of
           Some outputs \<Rightarrow> (Return (JSString outputs), eng)
         | None \<Rightarrow> (Return (JSString []), eng))
      else (Return (JSString NOT_INITIALIZED_STRING), eng))"

definition obsShutdown :: "js_value list \<Rightarrow> obs_core \<Rightarrow> completion \<times> obs_core" where
  "obsShutdown info eng =
     (if obs_initialized eng then
        (Return (JSString ''Success shutting down OBS''), obs_shutdown eng)
      else (Return (JSString NOT_INITIALIZED_STRING), eng))"

subsection \<open>\<open>AsyncResetVideoWorker\<close>\<close>

text \<open>
  An asynchronous command is \<open>Create\<close>, which either throws or queues a worker and returns
  its promise; a queued worker runs \<open>Execute\<close> on a pool thread and then, on the control
  thread, \<open>OnOK\<close> (or \<open>OnError\<close> when \<open>Execute\<close> has signalled an error, which no
  \<open>Execute\<close> of this addon does). The embedding runs the three in sequence and returns,
  as the promise, the way it settles.
\<close>

text \<open>The first part of \<open>Execute\<close>: the local variables \<open>width\<close> and \<open>height\<close> when
  \<open>create_ovi\<close> is called. The \<^verbatim>\<open>int\<close> that \<open>atoi\<close> returns is converted to
  \<^verbatim>\<open>size_t\<close>.\<close>

definition ParseSizeHint :: "string \<Rightarrow> size_t \<times> size_t" where
  "ParseSizeHint input =
     (let width = DEFAULT_VIDEO_WIDTH;
          height = DEFAULT_VIDEO_HEIGHT
      in case find_char input CHR ''x'' of
           None \<Rightarrow> (width, height)
         | Some xpos \<Rightarrow>
             (let w = substr0 input xpos;
                  h = erase0 input (xpos + 1)
              in (if length w \<noteq> 0 then word_of_int (atoi (c_str w)) else width,
                  if length h \<noteq> 0 then word_of_int (atoi (c_str h)) else height)))"

definition AsyncResetVideoWorker_Execute :: "string \<Rightarrow> obs_core \<Rightarrow> obs_video_info \<times> obs_core" where
  "AsyncResetVideoWorker_Execute input eng =
     (let (width, height) = ParseSizeHint input;
          ovi = create_ovi DEFAULT_VIDEO_ADAPTER DEFAULT_MODULE DEFAULT_VIDEO_FORMAT
                  DEFAULT_VIDEO_FPS_NUM DEFAULT_VIDEO_FPS_DEN width height
                  DEFAULT_VIDEO_WIDTH DEFAULT_VIDEO_HEIGHT
      in (ovi, obs_reset_video ovi eng))"

definition AsyncResetVideoWorker_OnOK :: "obs_video_info \<Rightarrow> obs_core \<Rightarrow> promise \<times> obs_core" where
  "AsyncResetVideoWorker_OnOK ovi eng =
     (let result = to_string (unat (base_width ovi)) @ CHR ''x'' # to_string (unat (base_height ovi))
      in (Resolved result, log_effect (Promise_resolve result) eng))"

definition AsyncResetVideoWorker_OnError :: "js_error \<Rightarrow> obs_core \<Rightarrow> promise \<times> obs_core" where
  "AsyncResetVideoWorker_OnError e eng = (Rejected e, log_effect (Promise_reject e) eng)"

definition AsyncResetVideoWorker_Create :: "js_value list \<Rightarrow> obs_core \<Rightarrow> completion \<times> obs_core" where
  "AsyncResetVideoWorker_Create info eng =
     (if \<not> obs_initialized eng then (Throw (TypeError NOT_INITIALIZED_STRING), eng)
      else if length info \<noteq> 1 \<or> \<not> IsString (info ! 0) then
        (Throw (TypeError ''Expected a single string argument''), eng)
      else
        (let input = As_String (info ! 0);
             eng1 = log_effect Worker_queue eng;
             (ovi, eng2) = AsyncResetVideoWorker_Execute input eng1;
             (p, eng3) = AsyncResetVideoWorker_OnOK ovi eng2
         in (Return (JSPromise p), eng3)))"

subsection \<open>\<open>AsyncResetAudioWorker\<close>\<close>

text \<open>The first part of \<open>Execute\<close>: the local variable \<open>stereo\<close>.\<close>

definition ParseChannelHint :: "string \<Rightarrow> bool" where
  "ParseChannelHint input =
     (let mpos = find_str input ''mono'';
          stereo = True
      in if mpos \<noteq> None then False else stereo)"

definition AsyncResetAudioWorker_Execute :: "string \<Rightarrow> obs_core \<Rightarrow> obs_audio_info \<times> obs_core" where
  "AsyncResetAudioWorker_Execute input eng =
     (let stereo = ParseChannelHint input;
          oai = create_oai DEFAULT_AUDIO_SAMPLES (if stereo then SPEAKERS_STEREO else SPEAKERS_MONO)
      in (oai, obs_reset_audio oai eng))"

definition AsyncResetAudioWorker_OnOK :: "obs_audio_info \<Rightarrow> obs_core \<Rightarrow> promise \<times> obs_core" where
  "AsyncResetAudioWorker_OnOK oai eng =
     (let result = (if speakers oai = SPEAKERS_STEREO then ''stereo'' else ''mono'')
      in (Resolved result, log_effect (Promise_resolve result) eng))"

definition AsyncResetAudioWorker_OnError :: "js_error \<Rightarrow> obs_core \<Rightarrow> promise \<times> obs_core" where
  "AsyncResetAudioWorker_OnError e eng = (Rejected e, log_effect (Promise_reject e) eng)"

definition AsyncResetAudioWorker_Create :: "js_value list \<Rightarrow> obs_core \<Rightarrow> completion \<times> obs_core" where
  "AsyncResetAudioWorker_Create info eng =
     (if \<not> obs_initialized eng then (Throw (TypeError NOT_INITIALIZED_STRING), eng)
      else if length info \<noteq> 1 \<or> \<not> IsString (info ! 0) then
        (Throw (TypeError ''Expected a single string argument''), eng)
      else
        (let input = As_String (info ! 0);
             eng1 = log_effect Worker_queue eng;
             (oai, eng2) = AsyncResetAudioWorker_Execute input eng1;
             (p, eng3) = AsyncResetAudioWorker_OnOK oai eng2
         in (Return (JSPromise p), eng3)))"

subsection \<open>\<open>AsyncStartOutputWorker\<close>\<close>

record AsyncStartOutputWorker =
  video_encoder :: handle
  audio_encoder :: handle
  output_handle :: handle
  streaming_service :: handle
  audio_index :: nat
  input :: string

text \<open>The member \<^verbatim>\<open>output\<close> is \<open>output_handle\<close> here, \<open>output\<close> being a
  reserved word. The constructor, with the default member initializers:\<close>

definition new_AsyncStartOutputWorker :: "string \<Rightarrow> AsyncStartOutputWorker" where
  "new_AsyncStartOutputWorker hint =
     \<lparr> video_encoder = None, audio_encoder = None, output_handle = None, streaming_service = None,
       audio_index = 0, input = hint \<rparr>"

definition AsyncStartOutputWorker_Execute ::
  "AsyncStartOutputWorker \<Rightarrow> obs_core \<Rightarrow> AsyncStartOutputWorker \<times> obs_core" where
  "AsyncStartOutputWorker_Execute w eng =
     (let (ve, eng1) =
            obs_video_encoder_create ''com.apple.videotoolbox.videoencoder.h264.gva'' [] eng;
          w1 = w\<lparr>video_encoder := ve\<rparr>;
          (ae, eng2) = obs_audio_encoder_create ''adv_stream_aac'' [] 0 eng1;
          w2 = w1\<lparr>audio_encoder := ae\<rparr>;
          eng3 = obs_encoder_set_video (video_encoder w2) eng2;
          eng4 = obs_encoder_set_audio (audio_encoder w2) eng3;
          eng5 = obs_output_set_video_encoder (output_handle w2) (video_encoder w2) eng4;
          eng6 = obs_output_set_audio_encoder (output_handle w2) (audio_encoder w2) (audio_index w2) eng5;
          eng7 = obs_output_set_service (output_handle w2) (streaming_service w2) eng6;
          eng8 = obs_output_start (output_handle w2) eng7
      in (w2, eng8))"

definition cleanup :: "AsyncStartOutputWorker \<Rightarrow> obs_core \<Rightarrow> AsyncStartOutputWorker \<times> obs_core" where
  "cleanup w eng =
     (let (w1, eng1) =
            (if output_handle w \<noteq> None then
               (w\<lparr>output_handle := None\<rparr>, obs_output_release (output_handle w) (obs_output_stop (output_handle w) eng))
             else (w, eng));
          (w2, eng2) =
            (if video_encoder w1 \<noteq> None then
               (w1\<lparr>video_encoder := None\<rparr>, obs_encoder_release (video_encoder w1) eng1)
             else (w1, eng1));
          (w3, eng3) =
            (if audio_encoder w2 \<noteq> None then
               (w2\<lparr>audio_encoder := None\<rparr>, obs_encoder_release (audio_encoder w2) eng2)
             else (w2, eng2));
          (w4, eng4) =
            (if streaming_service w3 \<noteq> None then
               (w3\<lparr>streaming_service := None\<rparr>,
                obs_service_release (streaming_service w3) eng3)
             else (w3, eng3))
      in (w4, eng4))"

definition AsyncStartOutputWorker_OnOK ::
  "AsyncStartOutputWorker \<Rightarrow> obs_core \<Rightarrow> AsyncStartOutputWorker \<times> promise \<times> obs_core" where
  "AsyncStartOutputWorker_OnOK w eng =
     (let (w', eng') = cleanup w eng
      in (w', Resolved ''ok'', log_effect (Promise_resolve ''ok'') eng'))"

definition AsyncStartOutputWorker_OnError ::
  "js_error \<Rightarrow> AsyncStartOutputWorker \<Rightarrow> obs_core \<Rightarrow> AsyncStartOutputWorker \<times> promise \<times> obs_core" where
  "AsyncStartOutputWorker_OnError e w eng =
     (let (w', eng') = cleanup w eng
      in (w', Rejected e, log_effect (Promise_reject e) eng'))"

definition AsyncStartOutputWorker_Create :: "js_value list \<Rightarrow> obs_core \<Rightarrow> completion \<times> obs_core" where
  "AsyncStartOutputWorker_Create info eng =
     (if \<not> obs_initialized eng then (Throw (TypeError NOT_INITIALIZED_STRING), eng)
      else if length info \<noteq> 1 \<or> \<not> IsString (info ! 0) then
        (Throw (TypeError ''Expected a single string argument''), eng)
      else
        (let hint = As_String (info ! 0);
             worker = new_AsyncStartOutputWorker hint;
             eng1 = log_effect Worker_queue eng;
             (worker1, eng2) = AsyncStartOutputWorker_Execute worker eng1;
             (worker2, p, eng3) = AsyncStartOutputWorker_OnOK worker1 eng2
         in (Return (JSPromise p), eng3)))"

subsection \<open>The export table\<close>

datatype command = shutdown | resetVideo | resetAudio | startOutput | getCodecs | getOutputs

fun Init :: "command \<Rightarrow> js_value list \<Rightarrow> obs_core \<Rightarrow> completion \<times> obs_core" where
  "Init shutdown = obsShutdown"
| "Init resetVideo = AsyncResetVideoWorker_Create"
| "Init resetAudio = AsyncResetAudioWorker_Create"
| "Init startOutput = AsyncStartOutputWorker_Create"
| "Init getCodecs = obsGetCodecs"
| "Init getOutputs = obsGetOutputs"

subsection \<open>Notions the statements use\<close>

text \<open>A numeric side of a size hint: a non-empty string of decimal digits, and the number
  it denotes in positional notation.\<close>

definition numeric :: "string \<Rightarrow> bool" where
  "numeric s = (s \<noteq> [] \<and> list_all isdigit s)"

fun decimal_value :: "string \<Rightarrow> nat" where
  "decimal_value [] = 0"
| "decimal_value (c # cs) = digit_value c * 10 ^ length cs + decimal_value cs"

text \<open>The releases the specification asks for, in its order: stop and release the output,
  release the video encoder, the audio encoder, and the service, each one only for a handle
  that is not null.\<close>

definition release_sequence :: "AsyncStartOutputWorker \<Rightarrow> effect list" where
  "release_sequence w =
     (if output_handle w = None then []
      else [Obs_output_stop (output_handle w), Obs_output_release (output_handle w)]) @
     (if video_encoder w = None then [] else [Obs_encoder_release (video_encoder w)]) @
     (if audio_encoder w = None then [] else [Obs_encoder_release (audio_encoder w)]) @
     (if streaming_service w = None then [] else [Obs_service_release (streaming_service w)])"

text \<open>Two process states for the examples: an engine that is not initialized, and an
  initialized one with two encoders and one output to enumerate.\<close>

definition fresh_process :: obs_core where
  "fresh_process =
     \<lparr> initialized = False, output_active = False, video = None, audio = None,
       encoder_names = [], output_names = [], unavailable = [], live = [], next_handle = 0,
       effects = [] \<rparr>"

definition ready_process :: obs_core where
  "ready_process =
     \<lparr> initialized = True, output_active = False, video = None, audio = None,
       encoder_names = [''x264'', ''aac''], output_names = [''rtmp''], unavailable = [],
       live = [], next_handle = 0, effects = [] \<rparr>"

section \<open>Properties\<close>

subsection \<open>Strings and parsing\<close>

lemma find_char_None: "c \<notin> set s \<Longrightarrow> find_char s c = None"
  by (induction s) auto

lemma find_char_first: "c \<notin> set w \<Longrightarrow> find_char (w @ c # h) c = Some (length w)"
  by (induction w) auto

lemma find_str_sublist: "(find_str s pat \<noteq> None) = sublist pat s"
  by (induction s) (auto simp: sublist_Cons_right split: option.splits)

lemma isdigit_not_other:
  "isdigit c \<Longrightarrow> \<not> isspace c \<and> c \<noteq> CHR ''-'' \<and> c \<noteq> CHR ''+'' \<and> c \<noteq> CHR 0x00 \<and> c \<noteq> CHR ''x''"
  by (auto simp: isdigit_def isspace_def)

lemma digits_acc_run:
  "list_all isdigit d \<Longrightarrow> r = [] \<or> \<not> isdigit (hd r) \<Longrightarrow>
     digits_acc acc (d @ r) = acc * 10 ^ length d + decimal_value d"
proof (induction d arbitrary: acc)
  case Nil
  then show ?case by (cases r) auto
next
  case (Cons c d)
  then show ?case by (simp add: algebra_simps)
qed

lemma c_str_run: "list_all isdigit d \<Longrightarrow> c_str (d @ r) = d @ c_str r"
  unfolding c_str_def
  by (rule takeWhile_append2) (auto simp: list_all_iff dest: isdigit_not_other)

lemma c_str_hd: "c_str r = [] \<or> hd (c_str r) = hd r"
  by (cases r) (auto simp: c_str_def)

lemma atoi_leading_run:
  assumes "numeric d" and "r = [] \<or> \<not> isdigit (hd r)"
  shows "atoi (c_str (d @ r)) = int (decimal_value d)"
proof -
  from assms(1) obtain c cs where d: "d = c # cs" and c: "isdigit c" and cs: "list_all isdigit cs"
    by (cases d) (auto simp: numeric_def)
  have tail: "c_str r = [] \<or> \<not> isdigit (hd (c_str r))"
    using assms(2) c_str_hd [of r] by (auto simp: c_str_def)
  have "c_str (d @ r) = c # (cs @ c_str r)"
    using c_str_run [of d r] assms(1) by (simp add: numeric_def d)
  moreover have "digits_acc 0 (d @ c_str r) = decimal_value d"
    using digits_acc_run [of d "c_str r" 0] assms(1) tail by (simp add: numeric_def)
  ultimately show ?thesis
    using c isdigit_not_other [OF c] by (simp add: atoi_def d)
qed

lemma atoi_no_number:
  assumes "s \<noteq> []" and "\<not> isdigit (hd s)" and "\<not> isspace (hd s)"
    and "hd s \<noteq> CHR ''-''" and "hd s \<noteq> CHR ''+''"
  shows "atoi (c_str s) = 0"
  using assms by (cases s) (auto simp: atoi_def c_str_def)

lemma digit_char_props: "d < 10 \<Longrightarrow> isdigit (digit_char d) \<and> digit_value (digit_char d) = d"
  by (simp add: isdigit_def digit_char_def digit_value_def)

lemma decimal_value_snoc: "decimal_value (cs @ [c]) = 10 * decimal_value cs + digit_value c"
  by (induction cs) (simp_all add: algebra_simps)

lemma to_string_numeric: "numeric (to_string n) \<and> decimal_value (to_string n) = n"
proof (induction n rule: to_string.induct)
  case (1 n)
  show ?case
  proof (cases "n < 10")
    case True
    then show ?thesis by (simp add: to_string.simps [of n] numeric_def digit_char_props)
  next
    case False
    with 1 have "numeric (to_string (n div 10))" "decimal_value (to_string (n div 10)) = n div 10"
      by simp_all
    with False show ?thesis
      by (simp add: to_string.simps [of n] numeric_def digit_char_props decimal_value_snoc)
  qed
qed

lemma ParseSizeHint_split:
  assumes "CHR ''x'' \<notin> set w"
  shows "ParseSizeHint (w @ CHR ''x'' # h) =
           (if w = [] then 640 else word_of_int (atoi (c_str w)),
            if h = [] then 360 else word_of_int (atoi (c_str h)))"
  using find_char_first [OF assms, of h]
  by (simp add: ParseSizeHint_def substr0_def erase0_def DEFAULT_VIDEO_WIDTH_def DEFAULT_VIDEO_HEIGHT_def)

lemma numeric_no_x: "numeric d \<Longrightarrow> CHR ''x'' \<notin> set d"
  by (auto simp: numeric_def list_all_iff dest: isdigit_not_other)

lemma obs_enum_enumCodecs: "obs_enum enumCodecs names (Some acc) = Some (acc @ concat names)"
  by (induction names arbitrary: acc) (simp_all add: enumCodecs_def)

lemma obs_enum_enumOutputs: "obs_enum enumOutputs names (Some acc) = Some (acc @ concat names)"
  by (induction names arbitrary: acc) (simp_all add: enumOutputs_def)

lemma sublist_mono_ex: "sublist ''mono'' ''a mono b''" "\<not> sublist ''mono'' []" "\<not> sublist ''mono'' ''stereo''"
  using find_str_sublist [of "''a mono b''" "''mono''"] find_str_sublist [of "[]" "''mono''"]
    find_str_sublist [of "''stereo''" "''mono''"]
  by simp_all

text \<open>The parser on the inputs the examples use.\<close>

lemma ParseSizeHint_examples:
  "ParseSizeHint ''1920x1080'' = (1920, 1080)"
  "ParseSizeHint ''1280x720'' = (1280, 720)"
  "ParseSizeHint ''12abx7'' = (12, 7)"
  "ParseSizeHint ''x720'' = (640, 720)"
  "ParseSizeHint ''1280x'' = (1280, 360)"
  "ParseSizeHint ''garbage'' = (640, 360)"
  "ParseSizeHint ''wxh'' = (0, 0)"
  by (simp_all add: ParseSizeHint_def substr0_def erase0_def c_str_def atoi_def isspace_def
      isdigit_def digit_value_def DEFAULT_VIDEO_WIDTH_def DEFAULT_VIDEO_HEIGHT_def)

lemma to_string_examples: "to_string 1920 = ''1920''" "to_string 1080 = ''1080''"
  "to_string 1280 = ''1280''" "to_string 720 = ''720''"
  by code_simp+

lemma numeric_examples:
  "numeric ''1280''" "numeric ''720''" "numeric ''12''" "decimal_value ''1280'' = 1280"
  "decimal_value ''720'' = 720" "decimal_value ''12'' = 12"
  "\<not> isdigit CHR ''a''" "\<not> isdigit CHR ''g''" "\<not> isspace CHR ''g''"
  by (simp_all add: numeric_def isdigit_def isspace_def digit_value_def)

subsection \<open>The engine operations, field by field\<close>

lemma log_effect_fields:
  "effects (log_effect e eng) = effects eng @ [e]"
  "live (log_effect e eng) = live eng"
  "initialized (log_effect e eng) = initialized eng"
  "output_active (log_effect e eng) = output_active eng"
  "unavailable (log_effect e eng) = unavailable eng"
  "next_handle (log_effect e eng) = next_handle eng"
  "video (log_effect e eng) = video eng"
  "audio (log_effect e eng) = audio eng"
  by (simp_all add: log_effect_def)

lemma new_handle_fields:
  "fst (new_handle i eng) = (if i \<in> set (unavailable eng) then None else Some (next_handle eng))"
  "effects (snd (new_handle i eng)) = effects eng"
  "live (snd (new_handle i eng)) =
     (if i \<in> set (unavailable eng) then live eng else next_handle eng # live eng)"
  "next_handle (snd (new_handle i eng)) =
     (if i \<in> set (unavailable eng) then next_handle eng else Suc (next_handle eng))"
  "unavailable (snd (new_handle i eng)) = unavailable eng"
  "initialized (snd (new_handle i eng)) = initialized eng"
  "output_active (snd (new_handle i eng)) = output_active eng"
  by (simp_all add: new_handle_def)

lemma release_handle_fields:
  "effects (release_handle h eng) = effects eng"
  "live (release_handle h eng) = (case h of None \<Rightarrow> live eng | Some p \<Rightarrow> remove1 p (live eng))"
  "initialized (release_handle h eng) = initialized eng"
  by (simp_all add: release_handle_def split: option.splits)

lemma create_fields:
  "fst (obs_video_encoder_create i n eng) = fst (new_handle i eng)"
  "snd (obs_video_encoder_create i n eng) =
     log_effect (Obs_video_encoder_create i n (fst (new_handle i eng))) (snd (new_handle i eng))"
  "fst (obs_audio_encoder_create i n k eng) = fst (new_handle i eng)"
  "snd (obs_audio_encoder_create i n k eng) =
     log_effect (Obs_audio_encoder_create i n k (fst (new_handle i eng))) (snd (new_handle i eng))"
  by (simp_all add: obs_video_encoder_create_def obs_audio_encoder_create_def split_beta)

lemma start_stop_fields:
  "effects (obs_output_start h eng) = effects eng @ [Obs_output_start h]"
  "live (obs_output_start h eng) = live eng"
  "initialized (obs_output_start h eng) = initialized eng"
  "effects (obs_output_stop h eng) = effects eng @ [Obs_output_stop h]"
  "live (obs_output_stop h eng) = live eng"
  "initialized (obs_output_stop h eng) = initialized eng"
  by (simp_all add: obs_output_start_def obs_output_stop_def log_effect_fields split: option.splits)

lemmas call_defs =
  obs_encoder_set_video_def obs_encoder_set_audio_def obs_output_set_video_encoder_def
  obs_output_set_audio_encoder_def obs_output_set_service_def obs_output_release_def
  obs_encoder_release_def obs_service_release_def

lemmas engine_fields =
  log_effect_fields new_handle_fields release_handle_fields create_fields start_stop_fields

subsection \<open>The start-output worker\<close>

lemma Execute_worker:
  "fst (AsyncStartOutputWorker_Execute w eng) =
     w\<lparr>video_encoder :=
         (if ''com.apple.videotoolbox.videoencoder.h264.gva'' \<in> set (unavailable eng) then None
          else Some (next_handle eng)),
       audio_encoder :=
         (if ''adv_stream_aac'' \<in> set (unavailable eng) then None
          else Some (if ''com.apple.videotoolbox.videoencoder.h264.gva'' \<in> set (unavailable eng)
                     then next_handle eng else Suc (next_handle eng)))\<rparr>"
  by (simp add: AsyncStartOutputWorker_Execute_def split_beta Let_def engine_fields)


lemma Execute_effects:
  "effects (snd (AsyncStartOutputWorker_Execute w eng)) =
     effects eng @
     [Obs_video_encoder_create ''com.apple.videotoolbox.videoencoder.h264.gva'' []
        (video_encoder (fst (AsyncStartOutputWorker_Execute w eng))),
      Obs_audio_encoder_create ''adv_stream_aac'' [] 0
        (audio_encoder (fst (AsyncStartOutputWorker_Execute w eng))),
      Obs_encoder_set_video (video_encoder (fst (AsyncStartOutputWorker_Execute w eng))),
      Obs_encoder_set_audio (audio_encoder (fst (AsyncStartOutputWorker_Execute w eng))),
      Obs_output_set_video_encoder (output_handle w)
        (video_encoder (fst (AsyncStartOutputWorker_Execute w eng))),
      Obs_output_set_audio_encoder (output_handle w)
        (audio_encoder (fst (AsyncStartOutputWorker_Execute w eng))) (audio_index w),
      Obs_output_set_service (output_handle w) (streaming_service w),
      Obs_output_start (output_handle w)]"
  unfolding Execute_worker
  by (simp add: AsyncStartOutputWorker_Execute_def split_beta Let_def engine_fields call_defs)

lemma Execute_live:
  "live (snd (AsyncStartOutputWorker_Execute w eng)) =
     (case audio_encoder (fst (AsyncStartOutputWorker_Execute w eng)) of
        None \<Rightarrow> [] | Some a \<Rightarrow> [a]) @
     (case video_encoder (fst (AsyncStartOutputWorker_Execute w eng)) of
        None \<Rightarrow> [] | Some v \<Rightarrow> [v]) @ live eng"
  unfolding Execute_worker
  by (simp add: AsyncStartOutputWorker_Execute_def split_beta Let_def engine_fields call_defs)

lemma cleanup_worker:
  "fst (cleanup w eng) =
     w\<lparr>video_encoder := None, audio_encoder := None, output_handle := None,
       streaming_service := None\<rparr>"
  by (simp add: cleanup_def split_beta Let_def)

lemma cleanup_effects: "effects (snd (cleanup w eng)) = effects eng @ release_sequence w"
  by (simp add: cleanup_def release_sequence_def split_beta Let_def engine_fields call_defs)

lemma cleanup_live:
  "live (snd (cleanup w eng)) =
     live (release_handle (streaming_service w) (release_handle (audio_encoder w)
       (release_handle (video_encoder w) (release_handle (output_handle w) eng))))"
  by (simp add: cleanup_def split_beta Let_def engine_fields call_defs split: option.splits)


lemma Execute_input:
  "fst (AsyncStartOutputWorker_Execute (w\<lparr>input := a\<rparr>) eng) =
     (fst (AsyncStartOutputWorker_Execute w eng))\<lparr>input := a\<rparr>"
  "snd (AsyncStartOutputWorker_Execute (w\<lparr>input := a\<rparr>) eng) =
     snd (AsyncStartOutputWorker_Execute w eng)"
  by (simp_all add: AsyncStartOutputWorker_Execute_def split_beta Let_def)

lemma cleanup_input: "snd (cleanup (w\<lparr>input := a\<rparr>) eng) = snd (cleanup w eng)"
  by (simp add: cleanup_def split_beta Let_def)

lemma new_worker_input:
  "new_AsyncStartOutputWorker a = (new_AsyncStartOutputWorker [])\<lparr>input := a\<rparr>"
  by (simp add: new_AsyncStartOutputWorker_def)

lemma OnOK_parts:
  "fst (AsyncStartOutputWorker_OnOK w eng) = fst (cleanup w eng)"
  "fst (snd (AsyncStartOutputWorker_OnOK w eng)) = Resolved ''ok''"
  "snd (snd (AsyncStartOutputWorker_OnOK w eng)) =
     log_effect (Promise_resolve ''ok'') (snd (cleanup w eng))"
  by (simp_all add: AsyncStartOutputWorker_OnOK_def split_beta)

lemma OnError_parts:
  "fst (AsyncStartOutputWorker_OnError e w eng) = fst (cleanup w eng)"
  "fst (snd (AsyncStartOutputWorker_OnError e w eng)) = Rejected e"
  "snd (snd (AsyncStartOutputWorker_OnError e w eng)) =
     log_effect (Promise_reject e) (snd (cleanup w eng))"
  by (simp_all add: AsyncStartOutputWorker_OnError_def split_beta)

lemma attempt_input:
  "snd (cleanup (fst (AsyncStartOutputWorker_Execute (new_AsyncStartOutputWorker a) eng))
                (snd (AsyncStartOutputWorker_Execute (new_AsyncStartOutputWorker a) eng))) =
   snd (cleanup (fst (AsyncStartOutputWorker_Execute (new_AsyncStartOutputWorker []) eng))
                (snd (AsyncStartOutputWorker_Execute (new_AsyncStartOutputWorker []) eng)))"
  by (subst (1 2) new_worker_input) (simp only: Execute_input cleanup_input)

lemma Create_queued:
  "initialized eng \<Longrightarrow>
   AsyncStartOutputWorker_Create [JSString a] eng =
     (Return (JSPromise (Resolved ''ok'')),
      log_effect (Promise_resolve ''ok'')
        (snd (cleanup
          (fst (AsyncStartOutputWorker_Execute (new_AsyncStartOutputWorker [])
                 (log_effect Worker_queue eng)))
          (snd (AsyncStartOutputWorker_Execute (new_AsyncStartOutputWorker [])
                 (log_effect Worker_queue eng))))))"
  by (simp add: AsyncStartOutputWorker_Create_def obs_initialized_def split_beta Let_def
      OnOK_parts attempt_input [of a])

lemma Create_refused:
  "\<not> initialized eng \<Longrightarrow>
   AsyncStartOutputWorker_Create info eng =
     (Throw (TypeError ''Error: OBS API not initialized!''), eng)"
  "initialized eng \<Longrightarrow> \<nexists>s. info = [JSString s] \<Longrightarrow>
   AsyncStartOutputWorker_Create info eng =
     (Throw (TypeError ''Expected a single string argument''), eng)"
   apply (simp add: AsyncStartOutputWorker_Create_def obs_initialized_def NOT_INITIALIZED_STRING_def)
  apply (cases info; simp add: AsyncStartOutputWorker_Create_def obs_initialized_def)
  subgoal for v vs by (cases v; cases vs; simp)
  done

lemma attempt_live:
  "live (snd (cleanup (fst (AsyncStartOutputWorker_Execute (new_AsyncStartOutputWorker hint) eng))
                      (snd (AsyncStartOutputWorker_Execute (new_AsyncStartOutputWorker hint) eng))))
     = live eng"
  unfolding cleanup_live Execute_worker
  by (simp add: engine_fields Execute_live Execute_worker new_AsyncStartOutputWorker_def)

subsection \<open>Dispatch of the three asynchronous commands\<close>

lemma not_single_string:
  "\<nexists>s. info = [JSString s] \<Longrightarrow> length info \<noteq> 1 \<or> \<not> IsString (info ! 0)"
proof (cases info)
  case Nil
  then show ?thesis by simp
next
  case (Cons v vs)
  assume "\<nexists>s. info = [JSString s]"
  with Cons show ?thesis by (cases v; cases vs; simp)
qed

lemma ResetVideo_refused:
  "\<not> initialized eng \<Longrightarrow>
   AsyncResetVideoWorker_Create info eng =
     (Throw (TypeError ''Error: OBS API not initialized!''), eng)"
  "initialized eng \<Longrightarrow> \<nexists>s. info = [JSString s] \<Longrightarrow>
   AsyncResetVideoWorker_Create info eng =
     (Throw (TypeError ''Expected a single string argument''), eng)"
  using not_single_string [of info]
  by (auto simp add: AsyncResetVideoWorker_Create_def obs_initialized_def
      NOT_INITIALIZED_STRING_def simp del: One_nat_def)

lemma ResetAudio_refused:
  "\<not> initialized eng \<Longrightarrow>
   AsyncResetAudioWorker_Create info eng =
     (Throw (TypeError ''Error: OBS API not initialized!''), eng)"
  "initialized eng \<Longrightarrow> \<nexists>s. info = [JSString s] \<Longrightarrow>
   AsyncResetAudioWorker_Create info eng =
     (Throw (TypeError ''Expected a single string argument''), eng)"
  using not_single_string [of info]
  by (auto simp add: AsyncResetAudioWorker_Create_def obs_initialized_def
      NOT_INITIALIZED_STRING_def simp del: One_nat_def)

lemma ResetVideo_queued:
  "initialized eng \<Longrightarrow>
   AsyncResetVideoWorker_Create [JSString s] eng =
     (Return (JSPromise (Resolved
        (to_string (unat (base_width (fst (AsyncResetVideoWorker_Execute s eng)))) @
         CHR ''x'' # to_string (unat (base_height (fst (AsyncResetVideoWorker_Execute s eng))))))),
      log_effect (Promise_resolve
        (to_string (unat (base_width (fst (AsyncResetVideoWorker_Execute s eng)))) @
         CHR ''x'' # to_string (unat (base_height (fst (AsyncResetVideoWorker_Execute s eng))))))
        (obs_reset_video (fst (AsyncResetVideoWorker_Execute s eng))
           (log_effect Worker_queue eng)))"
  by (simp add: AsyncResetVideoWorker_Create_def AsyncResetVideoWorker_Execute_def
      AsyncResetVideoWorker_OnOK_def obs_initialized_def split_beta Let_def)

lemma ResetAudio_queued:
  "initialized eng \<Longrightarrow>
   AsyncResetAudioWorker_Create [JSString s] eng =
     (Return (JSPromise (Resolved
        (if speakers (fst (AsyncResetAudioWorker_Execute s eng)) = SPEAKERS_STEREO
         then ''stereo'' else ''mono''))),
      log_effect (Promise_resolve
        (if speakers (fst (AsyncResetAudioWorker_Execute s eng)) = SPEAKERS_STEREO
         then ''stereo'' else ''mono''))
        (obs_reset_audio (fst (AsyncResetAudioWorker_Execute s eng))
           (log_effect Worker_queue eng)))"
  by (simp add: AsyncResetAudioWorker_Create_def AsyncResetAudioWorker_Execute_def
      AsyncResetAudioWorker_OnOK_def obs_initialized_def split_beta Let_def)

lemma reset_fields:
  "effects (obs_reset_video ovi eng) = effects eng @ [Obs_reset_video ovi]"
  "video (obs_reset_video ovi eng) = (if output_active eng then video eng else Some ovi)"
  "effects (obs_reset_audio oai eng) = effects eng @ [Obs_reset_audio oai]"
  "audio (obs_reset_audio oai eng) = (if output_active eng then audio eng else Some oai)"
  by (simp_all add: obs_reset_video_def obs_reset_audio_def log_effect_fields)

lemma running_examples:
  "initialized (ready_process\<lparr>output_active := True\<rparr>)"
  "output_active (ready_process\<lparr>output_active := True\<rparr>)"
  "effects (ready_process\<lparr>output_active := True\<rparr>) = []"
  "video (ready_process\<lparr>output_active := True\<rparr>) = None"
  "audio (ready_process\<lparr>output_active := True\<rparr>) = None"
  "initialized ready_process" "\<not> output_active ready_process"
  by (simp_all add: ready_process_def)

lemma Execute_examples:
  "fst (AsyncResetVideoWorker_Execute ''1280x720'' eng) =
     \<lparr> adapter = 0, graphics_module = ''libobs-opengl'', output_format = VIDEO_FORMAT_I420,
       fps_num = 30000, fps_den = 1000, base_width = 1280, base_height = 720,
       output_width = 640, output_height = 360 \<rparr>"
  "fst (AsyncResetAudioWorker_Execute ''mono'' eng) =
     \<lparr> samples_per_sec = 44100, speakers = SPEAKERS_MONO \<rparr>"
  by (simp_all add: AsyncResetVideoWorker_Execute_def ParseSizeHint_examples create_ovi_def
      DEFAULT_VIDEO_ADAPTER_def DEFAULT_MODULE_def DEFAULT_VIDEO_FORMAT_def
      DEFAULT_VIDEO_FPS_NUM_def DEFAULT_VIDEO_FPS_DEN_def DEFAULT_VIDEO_WIDTH_def
      DEFAULT_VIDEO_HEIGHT_def AsyncResetAudioWorker_Execute_def ParseChannelHint_def
      create_oai_def DEFAULT_AUDIO_SAMPLES_def Let_def)

section \<open>The claims\<close>

subsection \<open>Channel hint (C6)\<close>

text \<open>
  C6. The channel hint selects mono exactly when the string \<open>mono\<close> occurs somewhere in the
  input; every other input, the empty one included, selects stereo. On an initialized engine
  \<open>resetAudio\<close> passes that layout to \<^verbatim>\<open>obs_reset_audio\<close> and resolves its promise with
  \<open>mono\<close> or \<open>stereo\<close> accordingly.
\<close>

theorem ParseChannelHint_mono_iff:
  "ParseChannelHint hint = (\<not> sublist ''mono'' hint)
   \<and> speakers (fst (AsyncResetAudioWorker_Execute hint eng)) =
       (if sublist ''mono'' hint then SPEAKERS_MONO else SPEAKERS_STEREO)
   \<and> (initialized eng \<longrightarrow>
        fst (AsyncResetAudioWorker_Create [JSString hint] eng) =
          Return (JSPromise (Resolved (if sublist ''mono'' hint then ''mono'' else ''stereo'')))
        \<and> effects (snd (AsyncResetAudioWorker_Create [JSString hint] eng)) =
          effects eng @
          [Worker_queue,
           Obs_reset_audio \<lparr>samples_per_sec = 44100,
             speakers = (if sublist ''mono'' hint then SPEAKERS_MONO else SPEAKERS_STEREO)\<rparr>,
           Promise_resolve (if sublist ''mono'' hint then ''mono'' else ''stereo'')])"
proof -
  have hint: "ParseChannelHint hint = (\<not> sublist ''mono'' hint)"
    using find_str_sublist [of hint "''mono''"] by (auto simp: ParseChannelHint_def)
  show ?thesis
    by (simp add: hint AsyncResetAudioWorker_Execute_def AsyncResetAudioWorker_Create_def
        AsyncResetAudioWorker_OnOK_def create_oai_def obs_reset_audio_def log_effect_def
        obs_initialized_def DEFAULT_AUDIO_SAMPLES_def Let_def split_beta)
qed

theorem ParseChannelHint_mono_iff_witness:
  "initialized ready_process
   \<and> fst (AsyncResetAudioWorker_Create [JSString ''a mono b''] ready_process) = Return (JSPromise (Resolved ''mono''))
   \<and> fst (AsyncResetAudioWorker_Create [JSString []] ready_process) = Return (JSPromise (Resolved ''stereo''))
   \<and> effects (snd (AsyncResetAudioWorker_Create [JSString ''stereo''] ready_process)) =
       [Worker_queue, Obs_reset_audio \<lparr>samples_per_sec = 44100, speakers = SPEAKERS_STEREO\<rparr>,
        Promise_resolve ''stereo'']"
  using ParseChannelHint_mono_iff [of "''a mono b''" ready_process]
    ParseChannelHint_mono_iff [of "[]" ready_process]
    ParseChannelHint_mono_iff [of "''stereo''" ready_process] sublist_mono_ex
  by (simp add: ready_process_def)

subsection \<open>The two queries (C7)\<close>

text \<open>
  C7. \<open>getCodecs\<close> and \<open>getOutputs\<close> always return a string and never throw: the
  sentinel \<open>Error: OBS API not initialized!\<close> while the engine is not initialized, and
  otherwise the concatenation of the names the engine enumerates, which is empty when there
  are none. Neither changes the state.
\<close>

theorem queries_sentinel_or_names:
  "obsGetCodecs info eng =
     (Return (JSString (if initialized eng then concat (encoder_names eng)
                        else ''Error: OBS API not initialized!'')), eng)
   \<and> obsGetOutputs info eng =
     (Return (JSString (if initialized eng then concat (output_names eng)
                        else ''Error: OBS API not initialized!'')), eng)"
  by (simp add: obsGetCodecs_def obsGetOutputs_def obs_initialized_def obs_enum_encoders_def
      obs_enum_outputs_def obs_enum_enumCodecs obs_enum_enumOutputs NOT_INITIALIZED_STRING_def)

theorem queries_sentinel_or_names_witness:
  "obsGetCodecs [] fresh_process = (Return (JSString ''Error: OBS API not initialized!''), fresh_process)
   \<and> obsGetOutputs [JSNull] fresh_process = (Return (JSString ''Error: OBS API not initialized!''), fresh_process)
   \<and> obsGetCodecs [] ready_process = (Return (JSString ''x264aac''), ready_process)
   \<and> obsGetOutputs [] ready_process = (Return (JSString ''rtmp''), ready_process)
   \<and> obsGetCodecs [] (ready_process\<lparr>encoder_names := []\<rparr>) = (Return (JSString []), ready_process\<lparr>encoder_names := []\<rparr>)"
  using queries_sentinel_or_names [of "[]" fresh_process]
    queries_sentinel_or_names [of "[JSNull]" fresh_process]
    queries_sentinel_or_names [of "[]" ready_process]
    queries_sentinel_or_names [of "[]" "ready_process\<lparr>encoder_names := []\<rparr>"]
  by (simp add: fresh_process_def ready_process_def)

subsection \<open>What \<open>resetVideo\<close> configures (C10)\<close>

text \<open>
  C10. The configuration that \<open>resetVideo\<close> hands to \<^verbatim>\<open>obs_reset_video\<close> takes only
  its base width and height from the size hint. The adapter, graphics module, pixel format,
  frame rate and the output width and height are the compile-time defaults, 640 by 360 for
  the output size, whatever the hint.
\<close>

theorem resetVideo_sets_base_size_only:
  "fst (AsyncResetVideoWorker_Execute hint eng) =
     \<lparr> adapter = 0, graphics_module = ''libobs-opengl'', output_format = VIDEO_FORMAT_I420,
       fps_num = 30000, fps_den = 1000,
       base_width = ucast (fst (ParseSizeHint hint)),
       base_height = ucast (snd (ParseSizeHint hint)),
       output_width = 640, output_height = 360 \<rparr>
   \<and> snd (AsyncResetVideoWorker_Execute hint eng) =
       obs_reset_video (fst (AsyncResetVideoWorker_Execute hint eng)) eng"
  by (simp add: AsyncResetVideoWorker_Execute_def create_ovi_def split_beta Let_def
      DEFAULT_VIDEO_ADAPTER_def DEFAULT_MODULE_def DEFAULT_VIDEO_FORMAT_def
      DEFAULT_VIDEO_FPS_NUM_def DEFAULT_VIDEO_FPS_DEN_def DEFAULT_VIDEO_WIDTH_def
      DEFAULT_VIDEO_HEIGHT_def)

theorem resetVideo_sets_base_size_only_witness:
  "fst (AsyncResetVideoWorker_Execute ''1920x1080'' ready_process) =
     \<lparr> adapter = 0, graphics_module = ''libobs-opengl'', output_format = VIDEO_FORMAT_I420,
       fps_num = 30000, fps_den = 1000, base_width = 1920, base_height = 1080,
       output_width = 640, output_height = 360 \<rparr>"
  using resetVideo_sets_base_size_only [of "''1920x1080''" ready_process]
  by (simp add: ParseSizeHint_examples)

subsection \<open>Size hint (C5)\<close>

text \<open>
  C5, as the code has it. Both sides numeric (non-empty digit strings denoting values below
  \<open>2 ^ 31\<close>): the result is \<open>(w, h)\<close>; in particular the parser inverts the printing of
  two such numbers around an \<open>x\<close>. An empty side leaves its default, 640 for the width and
  360 for the height. No \<open>x\<close>: the result is \<open>(640, 360)\<close>. A non-empty side that starts
  with neither a digit, white space nor a sign parses to 0. A side that starts with digits
  and goes on with something else parses to the number its leading digits denote, not to 0.
\<close>

theorem ParseSizeHint_sides:
  "(numeric w \<and> numeric h \<and> decimal_value w < 2 ^ 31 \<and> decimal_value h < 2 ^ 31 \<longrightarrow>
      ParseSizeHint (w @ CHR ''x'' # h) = (of_nat (decimal_value w), of_nat (decimal_value h)))
   \<and> (m < 2 ^ 31 \<and> n < 2 ^ 31 \<longrightarrow>
      ParseSizeHint (to_string m @ CHR ''x'' # to_string n) = (of_nat m, of_nat n))
   \<and> fst (ParseSizeHint (CHR ''x'' # s)) = 640
   \<and> (CHR ''x'' \<notin> set s \<longrightarrow> snd (ParseSizeHint (s @ ''x'')) = 360)
   \<and> (CHR ''x'' \<notin> set s \<longrightarrow> ParseSizeHint s = (640, 360))
   \<and> (CHR ''x'' \<notin> set s \<and> s \<noteq> [] \<and> \<not> isdigit (hd s) \<and> \<not> isspace (hd s)
        \<and> hd s \<noteq> CHR ''-'' \<and> hd s \<noteq> CHR ''+'' \<longrightarrow>
      fst (ParseSizeHint (s @ CHR ''x'' # t)) = 0)
   \<and> (CHR ''x'' \<notin> set s \<and> t \<noteq> [] \<and> \<not> isdigit (hd t) \<and> \<not> isspace (hd t)
        \<and> hd t \<noteq> CHR ''-'' \<and> hd t \<noteq> CHR ''+'' \<longrightarrow>
      snd (ParseSizeHint (s @ CHR ''x'' # t)) = 0)
   \<and> (numeric d \<and> decimal_value d < 2 ^ 31 \<and> r \<noteq> [] \<and> \<not> isdigit (hd r) \<and> CHR ''x'' \<notin> set r \<longrightarrow>
      fst (ParseSizeHint (d @ r @ CHR ''x'' # t)) = of_nat (decimal_value d))
   \<and> (CHR ''x'' \<notin> set s \<and> numeric d \<and> decimal_value d < 2 ^ 31 \<and> r \<noteq> [] \<and> \<not> isdigit (hd r) \<longrightarrow>
      snd (ParseSizeHint (s @ CHR ''x'' # d @ r)) = of_nat (decimal_value d))"
proof -
  have both: "ParseSizeHint (a @ CHR ''x'' # b) = (of_nat (decimal_value a), of_nat (decimal_value b))"
    if "numeric a" "numeric b" for a b
  proof -
    have "atoi (c_str a) = int (decimal_value a)" "atoi (c_str b) = int (decimal_value b)"
      using atoi_leading_run [of a "[]"] atoi_leading_run [of b "[]"] that by simp_all
    moreover have "a \<noteq> []" "b \<noteq> []" using that by (simp_all add: numeric_def)
    ultimately show ?thesis
      using ParseSizeHint_split [OF numeric_no_x [OF that(1)], of b] by simp
  qed
  have c1: "numeric w \<and> numeric h \<and> decimal_value w < 2 ^ 31 \<and> decimal_value h < 2 ^ 31 \<longrightarrow>
      ParseSizeHint (w @ CHR ''x'' # h) = (of_nat (decimal_value w), of_nat (decimal_value h))"
    using both by simp
  have c2: "m < 2 ^ 31 \<and> n < 2 ^ 31 \<longrightarrow>
      ParseSizeHint (to_string m @ CHR ''x'' # to_string n) = (of_nat m, of_nat n)"
    using both [of "to_string m" "to_string n"] to_string_numeric [of m] to_string_numeric [of n]
    by simp
  have c3: "fst (ParseSizeHint (CHR ''x'' # s)) = 640"
    using ParseSizeHint_split [of "[]" s] by simp
  have c4: "CHR ''x'' \<notin> set s \<longrightarrow> snd (ParseSizeHint (s @ ''x'')) = 360"
    using ParseSizeHint_split [of s "[]"] by simp
  have c5: "CHR ''x'' \<notin> set s \<longrightarrow> ParseSizeHint s = (640, 360)"
    by (simp add: ParseSizeHint_def find_char_None DEFAULT_VIDEO_WIDTH_def DEFAULT_VIDEO_HEIGHT_def)
  have c6: "CHR ''x'' \<notin> set s \<and> s \<noteq> [] \<and> \<not> isdigit (hd s) \<and> \<not> isspace (hd s)
        \<and> hd s \<noteq> CHR ''-'' \<and> hd s \<noteq> CHR ''+'' \<longrightarrow>
      fst (ParseSizeHint (s @ CHR ''x'' # t)) = 0"
    using ParseSizeHint_split [of s t] atoi_no_number [of s] by simp
  have c7: "CHR ''x'' \<notin> set s \<and> t \<noteq> [] \<and> \<not> isdigit (hd t) \<and> \<not> isspace (hd t)
        \<and> hd t \<noteq> CHR ''-'' \<and> hd t \<noteq> CHR ''+'' \<longrightarrow>
      snd (ParseSizeHint (s @ CHR ''x'' # t)) = 0"
    using ParseSizeHint_split [of s t] atoi_no_number [of t] by simp
  have c8: "numeric d \<and> decimal_value d < 2 ^ 31 \<and> r \<noteq> [] \<and> \<not> isdigit (hd r) \<and> CHR ''x'' \<notin> set r \<longrightarrow>
      fst (ParseSizeHint (d @ r @ CHR ''x'' # t)) = of_nat (decimal_value d)"
  proof (intro impI, elim conjE)
    assume a: "numeric d" "r \<noteq> []" "\<not> isdigit (hd r)" "CHR ''x'' \<notin> set r"
    have "CHR ''x'' \<notin> set (d @ r)" using a numeric_no_x [of d] by simp
    from ParseSizeHint_split [OF this, of t] atoi_leading_run [of d r] a
    show "fst (ParseSizeHint (d @ r @ CHR ''x'' # t)) = of_nat (decimal_value d)"
      by (simp add: numeric_def)
  qed
  have c9: "CHR ''x'' \<notin> set s \<and> numeric d \<and> decimal_value d < 2 ^ 31 \<and> r \<noteq> [] \<and> \<not> isdigit (hd r) \<longrightarrow>
      snd (ParseSizeHint (s @ CHR ''x'' # d @ r)) = of_nat (decimal_value d)"
    using ParseSizeHint_split [of s "d @ r"] atoi_leading_run [of d r] by (simp add: numeric_def)
  from c1 c2 c3 c4 c5 c6 c7 c8 c9 show ?thesis by blast
qed

theorem ParseSizeHint_sides_witness:
  "ParseSizeHint ''1280x720'' = (1280, 720)
   \<and> ParseSizeHint ''1920x1080'' = (1920, 1080)
   \<and> fst (ParseSizeHint ''xg'') = 640
   \<and> snd (ParseSizeHint ''gx'') = 360
   \<and> ParseSizeHint ''g'' = (640, 360)
   \<and> fst (ParseSizeHint ''gxg'') = 0
   \<and> snd (ParseSizeHint ''gxg'') = 0
   \<and> fst (ParseSizeHint ''12abxg'') = 12
   \<and> snd (ParseSizeHint ''gx12ab'') = 12"
  using ParseSizeHint_sides [of "''1280''" "''720''" 1920 1080 "''g''" "''g''" "''12''" "''ab''"]
  by (simp add: numeric_examples to_string_examples del: decimal_value.simps)

text \<open>C5 as stated fails on its last part: \<open>12ab\<close> is not numeric, and as the width side
  of \<open>12abx7\<close> it parses to 12.\<close>

theorem ParseSizeHint_non_numeric_counterexample:
  "\<not> numeric ''12ab'' \<and> ParseSizeHint ''12abx7'' = (12, 7) \<and> fst (ParseSizeHint ''12abx7'') \<noteq> 0"
  by (simp add: ParseSizeHint_examples numeric_def isdigit_def)

subsection \<open>Release on every exit of a start-output attempt (C1)\<close>

text \<open>
  C1. Both completion handlers of a start-output worker, \<open>OnOK\<close> and \<open>OnError\<close>, first
  release the session handles and only then settle the promise. The releases are, in this
  order, stop output, release output, release video encoder, release audio encoder, release
  service, each one skipped when its handle is null, and afterwards all four handles of the
  worker are null. Whichever handler ends an attempt, and also when \<open>Create\<close> refuses the
  call, the engine holds exactly the live handles it held before: the attempt leaves no
  session resource behind.
\<close>

theorem cleanup_before_settling:
  "effects (snd (snd (AsyncStartOutputWorker_OnOK w eng))) =
     effects eng @ release_sequence w @ [Promise_resolve ''ok'']
   \<and> effects (snd (snd (AsyncStartOutputWorker_OnError e w eng))) =
     effects eng @ release_sequence w @ [Promise_reject e]
   \<and> fst (AsyncStartOutputWorker_OnOK w eng) =
     w\<lparr>video_encoder := None, audio_encoder := None, output_handle := None,
       streaming_service := None\<rparr>
   \<and> fst (AsyncStartOutputWorker_OnError e w eng) =
     w\<lparr>video_encoder := None, audio_encoder := None, output_handle := None,
       streaming_service := None\<rparr>
   \<and> live (snd (snd (AsyncStartOutputWorker_OnOK
         (fst (AsyncStartOutputWorker_Execute (new_AsyncStartOutputWorker hint) eng))
         (snd (AsyncStartOutputWorker_Execute (new_AsyncStartOutputWorker hint) eng))))) = live eng
   \<and> live (snd (snd (AsyncStartOutputWorker_OnError e
         (fst (AsyncStartOutputWorker_Execute (new_AsyncStartOutputWorker hint) eng))
         (snd (AsyncStartOutputWorker_Execute (new_AsyncStartOutputWorker hint) eng))))) = live eng
   \<and> live (snd (AsyncStartOutputWorker_Create info eng)) = live eng"
proof -
  have created: "live (snd (AsyncStartOutputWorker_Create info eng)) = live eng"
  proof (cases "initialized eng \<and> (\<exists>s. info = [JSString s])")
    case True
    then obtain s where "info = [JSString s]" and "initialized eng" by blast
    then show ?thesis
      using attempt_live [of "[]" "log_effect Worker_queue eng"]
      by (simp add: Create_queued log_effect_fields)
  next
    case False
    then show ?thesis
      using Create_refused [of eng info] by (cases "initialized eng") auto
  qed
  show ?thesis
    by (simp add: OnOK_parts OnError_parts log_effect_fields cleanup_effects cleanup_worker
        attempt_live created)
qed

theorem cleanup_before_settling_witness:
  "effects (snd (AsyncStartOutputWorker_Create [JSString ''rtmp://live''] ready_process)) =
     [Worker_queue,
      Obs_video_encoder_create ''com.apple.videotoolbox.videoencoder.h264.gva'' [] (Some 0),
      Obs_audio_encoder_create ''adv_stream_aac'' [] 0 (Some 1),
      Obs_encoder_set_video (Some 0), Obs_encoder_set_audio (Some 1),
      Obs_output_set_video_encoder None (Some 0),
      Obs_output_set_audio_encoder None (Some 1) 0,
      Obs_output_set_service None None, Obs_output_start None,
      Obs_encoder_release (Some 0), Obs_encoder_release (Some 1),
      Promise_resolve ''ok'']
   \<and> live (snd (AsyncStartOutputWorker_Create [JSString ''rtmp://live''] ready_process)) = []
   \<and> effects (snd (snd (AsyncStartOutputWorker_OnError (TypeError ''failed'')
        \<lparr>video_encoder = Some 3, audio_encoder = None, output_handle = Some 5,
          streaming_service = Some 6, audio_index = 0, input = []\<rparr> ready_process))) =
     [Obs_output_stop (Some 5), Obs_output_release (Some 5), Obs_encoder_release (Some 3),
      Obs_service_release (Some 6), Promise_reject (TypeError ''failed'')]"
  using cleanup_before_settling [of
      "\<lparr>video_encoder = Some 3, audio_encoder = None, output_handle = Some 5,
          streaming_service = Some 6, audio_index = 0, input = []\<rparr>"
      ready_process "TypeError ''failed''" "[]" "[JSString ''rtmp://live'']"]
  by (simp add: ready_process_def release_sequence_def Create_queued log_effect_fields
      cleanup_effects Execute_effects Execute_worker new_AsyncStartOutputWorker_def)

subsection \<open>What a start-output attempt creates (C2)\<close>

text \<open>
  C2 asks for four handles, created in the order video encoder, audio encoder, output,
  service. \<open>Execute\<close> creates the two encoders and binds them to the video and audio
  pipeline, and nothing else: the output and the service of a new worker are null and stay
  null, so both encoders and the null service are attached to a null output, and it is the
  null output that \<^verbatim>\<open>obs_output_start\<close> is called on.
\<close>

theorem Execute_creates_no_output_or_service:
  "output_handle (fst (AsyncStartOutputWorker_Execute (new_AsyncStartOutputWorker hint) eng)) = None
   \<and> streaming_service (fst (AsyncStartOutputWorker_Execute (new_AsyncStartOutputWorker hint) eng)) = None
   \<and> effects (snd (AsyncStartOutputWorker_Execute (new_AsyncStartOutputWorker hint) eng)) =
       effects eng @
       [Obs_video_encoder_create ''com.apple.videotoolbox.videoencoder.h264.gva'' []
          (video_encoder (fst (AsyncStartOutputWorker_Execute (new_AsyncStartOutputWorker hint) eng))),
        Obs_audio_encoder_create ''adv_stream_aac'' [] 0
          (audio_encoder (fst (AsyncStartOutputWorker_Execute (new_AsyncStartOutputWorker hint) eng))),
        Obs_encoder_set_video
          (video_encoder (fst (AsyncStartOutputWorker_Execute (new_AsyncStartOutputWorker hint) eng))),
        Obs_encoder_set_audio
          (audio_encoder (fst (AsyncStartOutputWorker_Execute (new_AsyncStartOutputWorker hint) eng))),
        Obs_output_set_video_encoder None
          (video_encoder (fst (AsyncStartOutputWorker_Execute (new_AsyncStartOutputWorker hint) eng))),
        Obs_output_set_audio_encoder None
          (audio_encoder (fst (AsyncStartOutputWorker_Execute (new_AsyncStartOutputWorker hint) eng))) 0,
        Obs_output_set_service None None,
        Obs_output_start None]"
proof -
  define w where "w = new_AsyncStartOutputWorker hint"
  have fresh: "output_handle w = None" "streaming_service w = None" "audio_index w = 0"
    by (simp_all add: w_def new_AsyncStartOutputWorker_def)
  show ?thesis
    unfolding w_def [symmetric]
    using Execute_effects [of w eng] by (simp add: Execute_worker fresh)
qed

theorem Execute_creates_no_output_or_service_witness:
  "effects (snd (AsyncStartOutputWorker_Execute (new_AsyncStartOutputWorker ''rtmp://live'')
                   ready_process)) =
     [Obs_video_encoder_create ''com.apple.videotoolbox.videoencoder.h264.gva'' [] (Some 0),
      Obs_audio_encoder_create ''adv_stream_aac'' [] 0 (Some 1),
      Obs_encoder_set_video (Some 0), Obs_encoder_set_audio (Some 1),
      Obs_output_set_video_encoder None (Some 0),
      Obs_output_set_audio_encoder None (Some 1) 0,
      Obs_output_set_service None None, Obs_output_start None]
   \<and> output_handle (fst (AsyncStartOutputWorker_Execute
        (new_AsyncStartOutputWorker ''rtmp://live'') ready_process)) = None
   \<and> streaming_service (fst (AsyncStartOutputWorker_Execute
        (new_AsyncStartOutputWorker ''rtmp://live'') ready_process)) = None"
  using Execute_creates_no_output_or_service [of "''rtmp://live''" ready_process]
  by (simp add: Execute_worker ready_process_def new_AsyncStartOutputWorker_def)

subsection \<open>The start-output hint is not used (C9)\<close>

text \<open>
  C9. \<open>startOutput\<close> does not depend on its string argument: two calls with one string
  each, from the same state, end the same way and leave the same state, the log of engine
  calls with its encoder identifiers included; \<open>Execute\<close> never reads the member \<open>input\<close>.
  On an initialized engine the promise resolves with \<open>ok\<close>.
\<close>

theorem startOutput_ignores_hint:
  "AsyncStartOutputWorker_Create [JSString a] eng = AsyncStartOutputWorker_Create [JSString b] eng
   \<and> snd (AsyncStartOutputWorker_Execute (w\<lparr>input := a\<rparr>) eng) =
       snd (AsyncStartOutputWorker_Execute (w\<lparr>input := b\<rparr>) eng)
   \<and> (initialized eng \<longrightarrow>
        fst (AsyncStartOutputWorker_Create [JSString a] eng) = Return (JSPromise (Resolved ''ok'')))"
proof (cases "initialized eng")
  case True
  then show ?thesis by (simp add: Create_queued Execute_input)
next
  case False
  then show ?thesis by (simp add: Create_refused(1) Execute_input)
qed

theorem startOutput_ignores_hint_witness:
  "initialized ready_process
   \<and> AsyncStartOutputWorker_Create [JSString ''rtmp://a/key1''] ready_process =
       AsyncStartOutputWorker_Create [JSString ''other''] ready_process
   \<and> fst (AsyncStartOutputWorker_Create [JSString ''rtmp://a/key1''] ready_process) =
       Return (JSPromise (Resolved ''ok''))"
proof -
  have ready: "initialized ready_process"
    by (simp add: ready_process_def)
  with startOutput_ignores_hint [where a = "''rtmp://a/key1''" and b = "''other''"
      and eng = ready_process and w = "new_AsyncStartOutputWorker []"]
  show ?thesis by blast
qed

subsection \<open>Commands on an engine that is not initialized (C3)\<close>

text \<open>
  C3, as the code has it. While the engine is not initialized, \<open>resetVideo\<close>,
  \<open>resetAudio\<close> and \<open>startOutput\<close> throw a type error with the not-initialized message,
  whatever their arguments, and \<open>shutdown\<close> returns that message as an ordinary string. None
  of the four queues a worker or calls into the engine: the state, its log included, is
  unchanged.
\<close>

theorem uninitialized_commands:
  assumes "\<not> initialized eng"
  shows "Init resetVideo info eng = (Throw (TypeError ''Error: OBS API not initialized!''), eng)
   \<and> Init resetAudio info eng = (Throw (TypeError ''Error: OBS API not initialized!''), eng)
   \<and> Init startOutput info eng = (Throw (TypeError ''Error: OBS API not initialized!''), eng)
   \<and> Init shutdown info eng = (Return (JSString ''Error: OBS API not initialized!''), eng)"
  using assms
  by (simp add: ResetVideo_refused(1) ResetAudio_refused(1) Create_refused(1) obsShutdown_def
      obs_initialized_def NOT_INITIALIZED_STRING_def)

theorem uninitialized_commands_witness:
  "\<not> initialized fresh_process
   \<and> Init resetVideo [JSString ''1280x720''] fresh_process =
       (Throw (TypeError ''Error: OBS API not initialized!''), fresh_process)
   \<and> Init resetAudio [JSString ''mono''] fresh_process =
       (Throw (TypeError ''Error: OBS API not initialized!''), fresh_process)
   \<and> Init startOutput [JSString ''rtmp://live''] fresh_process =
       (Throw (TypeError ''Error: OBS API not initialized!''), fresh_process)
   \<and> Init shutdown [] fresh_process =
       (Return (JSString ''Error: OBS API not initialized!''), fresh_process)"
proof -
  have fresh: "\<not> initialized fresh_process"
    by (simp add: fresh_process_def)
  show ?thesis
    using fresh uninitialized_commands [OF fresh, of "[JSString ''1280x720'']"]
      uninitialized_commands [OF fresh, of "[JSString ''mono'']"]
      uninitialized_commands [OF fresh, of "[JSString ''rtmp://live'']"]
      uninitialized_commands [OF fresh, of "[]"]
    by blast
qed

text \<open>C3 as stated fails for \<open>shutdown\<close>, which does not fail with an error but returns
  the sentinel string.\<close>

theorem shutdown_uninitialized_counterexample:
  "\<not> initialized fresh_process
   \<and> fst (Init shutdown [] fresh_process) = Return (JSString ''Error: OBS API not initialized!'')
   \<and> fst (Init shutdown [] fresh_process) \<noteq> Throw (TypeError ''Error: OBS API not initialized!'')"
  by (simp add: fresh_process_def obsShutdown_def obs_initialized_def NOT_INITIALIZED_STRING_def)

subsection \<open>Reconfiguration and a running session (C4)\<close>

text \<open>
  C4, as the code has it. \<open>resetVideo\<close> and \<open>resetAudio\<close> do not look at the session:
  on an initialized engine, called with one string, each queues its worker, calls
  \<^verbatim>\<open>obs_reset_video\<close> or \<^verbatim>\<open>obs_reset_audio\<close> and resolves its promise with the size
  or the layout, whether an output is active or not. There is no session-active error.
  When no output is active the new configuration is the one in force afterwards; while one
  is active the engine keeps the old one, and the promise resolves all the same.
\<close>

theorem reset_without_session_check:
  assumes "initialized eng"
  shows "fst (Init resetVideo [JSString s] eng) =
       Return (JSPromise (Resolved
         (to_string (unat (base_width (fst (AsyncResetVideoWorker_Execute s eng)))) @
          CHR ''x'' # to_string (unat (base_height (fst (AsyncResetVideoWorker_Execute s eng)))))))
   \<and> effects (snd (Init resetVideo [JSString s] eng)) =
       effects eng @
       [Worker_queue, Obs_reset_video (fst (AsyncResetVideoWorker_Execute s eng)),
        Promise_resolve
         (to_string (unat (base_width (fst (AsyncResetVideoWorker_Execute s eng)))) @
          CHR ''x'' # to_string (unat (base_height (fst (AsyncResetVideoWorker_Execute s eng)))))]
   \<and> video (snd (Init resetVideo [JSString s] eng)) =
       (if output_active eng then video eng else Some (fst (AsyncResetVideoWorker_Execute s eng)))
   \<and> fst (Init resetAudio [JSString s] eng) =
       Return (JSPromise (Resolved
         (if speakers (fst (AsyncResetAudioWorker_Execute s eng)) = SPEAKERS_STEREO
          then ''stereo'' else ''mono'')))
   \<and> effects (snd (Init resetAudio [JSString s] eng)) =
       effects eng @
       [Worker_queue, Obs_reset_audio (fst (AsyncResetAudioWorker_Execute s eng)),
        Promise_resolve
         (if speakers (fst (AsyncResetAudioWorker_Execute s eng)) = SPEAKERS_STEREO
          then ''stereo'' else ''mono'')]
   \<and> audio (snd (Init resetAudio [JSString s] eng)) =
       (if output_active eng then audio eng else Some (fst (AsyncResetAudioWorker_Execute s eng)))"
  using assms
  by (simp add: ResetVideo_queued ResetAudio_queued log_effect_fields reset_fields)

theorem reset_without_session_check_witness:
  "initialized (ready_process\<lparr>output_active := True\<rparr>)
   \<and> fst (Init resetVideo [JSString ''1280x720''] (ready_process\<lparr>output_active := True\<rparr>)) =
       Return (JSPromise (Resolved ''1280x720''))
   \<and> video (snd (Init resetVideo [JSString ''1280x720''] (ready_process\<lparr>output_active := True\<rparr>))) =
       None
   \<and> fst (Init resetVideo [JSString ''1280x720''] ready_process) =
       Return (JSPromise (Resolved ''1280x720''))
   \<and> video (snd (Init resetVideo [JSString ''1280x720''] ready_process)) =
       Some \<lparr> adapter = 0, graphics_module = ''libobs-opengl'', output_format = VIDEO_FORMAT_I420,
         fps_num = 30000, fps_den = 1000, base_width = 1280, base_height = 720,
         output_width = 640, output_height = 360 \<rparr>"
  using reset_without_session_check [OF running_examples(1), of "''1280x720''"]
    reset_without_session_check [OF running_examples(6), of "''1280x720''"]
  by (simp add: running_examples Execute_examples to_string_examples)

text \<open>C4 as stated fails: with an output active, both calls resolve instead of failing.\<close>

theorem reset_while_running_counterexample:
  "initialized (ready_process\<lparr>output_active := True\<rparr>)
   \<and> output_active (ready_process\<lparr>output_active := True\<rparr>)
   \<and> fst (Init resetVideo [JSString ''1280x720''] (ready_process\<lparr>output_active := True\<rparr>)) =
       Return (JSPromise (Resolved ''1280x720''))
   \<and> fst (Init resetAudio [JSString ''mono''] (ready_process\<lparr>output_active := True\<rparr>)) =
       Return (JSPromise (Resolved ''mono''))"
  by (simp add: running_examples ResetVideo_queued ResetAudio_queued Execute_examples
      to_string_examples)

subsection \<open>Argument errors at dispatch (C8)\<close>

text \<open>
  C8, as the code has it. On an initialized engine, \<open>resetVideo\<close>, \<open>resetAudio\<close> and
  \<open>startOutput\<close> called with anything but exactly one string throw the type error
  \<open>Expected a single string argument\<close> from \<open>Create\<close> itself: no worker is queued, no
  engine call is made, and the state is unchanged. On an engine that is not initialized the
  same calls throw the not-initialized error instead, that check being the first.
\<close>

theorem bad_argument_at_dispatch:
  "(initialized eng \<and> (\<nexists>s. info = [JSString s]) \<longrightarrow>
      Init resetVideo info eng = (Throw (TypeError ''Expected a single string argument''), eng)
    \<and> Init resetAudio info eng = (Throw (TypeError ''Expected a single string argument''), eng)
    \<and> Init startOutput info eng = (Throw (TypeError ''Expected a single string argument''), eng))
   \<and> (\<not> initialized eng \<and> (\<nexists>s. info = [JSString s]) \<longrightarrow>
      Init resetVideo info eng = (Throw (TypeError ''Error: OBS API not initialized!''), eng)
    \<and> Init resetAudio info eng = (Throw (TypeError ''Error: OBS API not initialized!''), eng)
    \<and> Init startOutput info eng = (Throw (TypeError ''Error: OBS API not initialized!''), eng))"
  by (simp add: ResetVideo_refused ResetAudio_refused Create_refused)

theorem bad_argument_at_dispatch_witness:
  "initialized ready_process
   \<and> Init resetVideo [] ready_process =
       (Throw (TypeError ''Expected a single string argument''), ready_process)
   \<and> Init resetAudio [JSNumber 2] ready_process =
       (Throw (TypeError ''Expected a single string argument''), ready_process)
   \<and> Init startOutput [JSString ''a'', JSString ''b''] ready_process =
       (Throw (TypeError ''Expected a single string argument''), ready_process)
   \<and> \<not> initialized fresh_process
   \<and> Init resetVideo [JSNull] fresh_process =
       (Throw (TypeError ''Error: OBS API not initialized!''), fresh_process)"
proof -
  have states: "initialized ready_process" "\<not> initialized fresh_process"
    by (simp_all add: ready_process_def fresh_process_def)
  show ?thesis
    using states bad_argument_at_dispatch [of ready_process "[]"]
      bad_argument_at_dispatch [of ready_process "[JSNumber 2]"]
      bad_argument_at_dispatch [of ready_process "[JSString ''a'', JSString ''b'']"]
      bad_argument_at_dispatch [of fresh_process "[JSNull]"]
    by simp
qed

text \<open>C8 as stated fails when the engine is not initialized: the error raised for a bad
  argument list is then the not-initialized one.\<close>

theorem bad_argument_uninitialized_counterexample:
  "fst (Init resetVideo [] fresh_process) = Throw (TypeError ''Error: OBS API not initialized!'')
   \<and> fst (Init resetVideo [] fresh_process) \<noteq> Throw (TypeError ''Expected a single string argument'')
   \<and> fst (Init startOutput [JSNumber 2] fresh_process) \<noteq>
       Throw (TypeError ''Expected a single string argument'')"
  by (simp add: fresh_process_def AsyncResetVideoWorker_Create_def
      AsyncStartOutputWorker_Create_def obs_initialized_def NOT_INITIALIZED_STRING_def)

end
